theory Spec2Isabelle
  imports Complex_Main "HOL-Library.Log_Nat"
begin

section \<open>Calendar fields of a JavaScript Date\<close>

text \<open>
  \<^verbatim>\<open>updateStreak\<close> compares \<^verbatim>\<open>getDate()\<close>, \<^verbatim>\<open>getMonth()\<close> and \<^verbatim>\<open>getFullYear()\<close>
  of two \<^verbatim>\<open>Date\<close> objects. A Date is a time value: the number of milliseconds
  since 1970-01-01T00:00:00Z, here an \<^typ>\<open>int\<close>. The three getters are the
  functions of ECMA-262 (section "Time Values and Time Range" and its
  neighbours) applied to the local time, which is the time value plus the local
  time-zone adjustment at that instant. The adjustment is a parameter
  \<open>tza\<close> of the model, so that every claim holds in every time zone, daylight
  saving included.
\<close>

definition msPerDay :: int where
  "msPerDay = 86400000"

definition Day :: "int \<Rightarrow> int" where
  "Day t = t div msPerDay"

definition DaysInYear :: "int \<Rightarrow> int" where
  "DaysInYear y =
     (if y mod 4 \<noteq> 0 then 365
      else if y mod 100 \<noteq> 0 then 366
      else if y mod 400 \<noteq> 0 then 365
      else 366)"

definition DayFromYear :: "int \<Rightarrow> int" where
  "DayFromYear y =
     365 * (y - 1970) + (y - 1969) div 4 - (y - 1901) div 100 + (y - 1601) div 400"

text \<open>
  ECMA-262 specifies \<^verbatim>\<open>YearFromTime(t)\<close> as the largest year whose first day is
  not after \<open>t\<close>. To compute it, the model estimates the year from the mean
  length of a Gregorian year (146097 days in 400 years) and moves the estimate
  by at most one; lemma \<open>YearFromDay_bounds\<close> below shows that the outcome is the
  year ECMA-262 specifies.
\<close>

definition YearFromDay :: "int \<Rightarrow> int" where
  "YearFromDay d =
     (let y0 = 1970 + (400 * d) div 146097 in
      if d < DayFromYear y0 then y0 - 1
      else if DayFromYear (y0 + 1) \<le> d then y0 + 1
      else y0)"

definition YearFromTime :: "int \<Rightarrow> int" where
  "YearFromTime t = YearFromDay (Day t)"

definition InLeapYear :: "int \<Rightarrow> int" where
  "InLeapYear t = (if DaysInYear (YearFromTime t) = 366 then 1 else 0)"

definition DayWithinYear :: "int \<Rightarrow> int" where
  "DayWithinYear t = Day t - DayFromYear (YearFromTime t)"

definition MonthFromTime :: "int \<Rightarrow> int" where
  "MonthFromTime t =
     (let leap = InLeapYear t; dwy = DayWithinYear t in
      if dwy < 31 then 0
      else if dwy < 59 + leap then 1
      else if dwy < 90 + leap then 2
      else if dwy < 120 + leap then 3
      else if dwy < 151 + leap then 4
      else if dwy < 181 + leap then 5
      else if dwy < 212 + leap then 6
      else if dwy < 243 + leap then 7
      else if dwy < 273 + leap then 8
      else if dwy < 304 + leap then 9
      else if dwy < 334 + leap then 10
      else 11)"

definition DateFromTime :: "int \<Rightarrow> int" where
  "DateFromTime t =
     (let leap = InLeapYear t; dwy = DayWithinYear t; m = MonthFromTime t in
      if m = 0 then dwy + 1
      else if m = 1 then dwy - 30
      else if m = 2 then dwy - 58 - leap
      else if m = 3 then dwy - 89 - leap
      else if m = 4 then dwy - 119 - leap
      else if m = 5 then dwy - 150 - leap
      else if m = 6 then dwy - 180 - leap
      else if m = 7 then dwy - 211 - leap
      else if m = 8 then dwy - 242 - leap
      else if m = 9 then dwy - 272 - leap
      else if m = 10 then dwy - 303 - leap
      else dwy - 333 - leap)"

definition LocalTime :: "(int \<Rightarrow> int) \<Rightarrow> int \<Rightarrow> int" where
  "LocalTime tza t = t + tza t"

definition getFullYear :: "(int \<Rightarrow> int) \<Rightarrow> int \<Rightarrow> int" where
  "getFullYear tza t = YearFromTime (LocalTime tza t)"

definition getMonth :: "(int \<Rightarrow> int) \<Rightarrow> int \<Rightarrow> int" where
  "getMonth tza t = MonthFromTime (LocalTime tza t)"

definition getDate :: "(int \<Rightarrow> int) \<Rightarrow> int \<Rightarrow> int" where
  "getDate tza t = DateFromTime (LocalTime tza t)"

text \<open>The number of the local calendar day that holds the instant \<open>t\<close>.\<close>

definition localDay :: "(int \<Rightarrow> int) \<Rightarrow> int \<Rightarrow> int" where
  "localDay tza t = Day (LocalTime tza t)"

text \<open>Coordinated universal time: no adjustment.\<close>

definition utc :: "int \<Rightarrow> int" where
  "utc t = 0"

text \<open>
  The time value of midnight UTC at the start of a Gregorian date (ECMA-262
  \<^verbatim>\<open>MakeDay\<close> and \<^verbatim>\<open>MakeDate\<close> for a month in \<open>0..11\<close>), used to write the
  instants of the scenarios.
\<close>

definition monthStart :: "int \<Rightarrow> int \<Rightarrow> int" where
  "monthStart m leap =
     (if m = 0 then 0
      else if m = 1 then 31
      else if m = 2 then 59 + leap
      else if m = 3 then 90 + leap
      else if m = 4 then 120 + leap
      else if m = 5 then 151 + leap
      else if m = 6 then 181 + leap
      else if m = 7 then 212 + leap
      else if m = 8 then 243 + leap
      else if m = 9 then 273 + leap
      else if m = 10 then 304 + leap
      else 334 + leap)"

definition utcDate :: "int \<Rightarrow> int \<Rightarrow> int \<Rightarrow> int" where
  "utcDate y m d =
     (DayFromYear y + monthStart m (if DaysInYear y = 366 then 1 else 0) + d - 1) * msPerDay"

section \<open>The document store\<close>

text \<open>
  The store is Firestore, an external service. The model keeps what the
  operations use of it: the \<^verbatim>\<open>users\<close> collection as a map from document id to
  document, the \<^verbatim>\<open>relapses\<close> collection as the list of its documents in the
  order of insertion (their ids are generated by the store), and the list of
  the calls that were issued, which is what "performs no write" and "one
  update call" are read from. A Firestore \<^verbatim>\<open>Timestamp\<close> is modelled by the time
  value that its \<^verbatim>\<open>toDate()\<close> yields. A JavaScript number that holds an
  integer is an \<^typ>\<open>int\<close>; what the operations compute with it is rounded
  as the language rounds (see \<open>jsAdd\<close>).

  Every call may fail: a parameter \<open>fault\<close> gives the message of the error that
  the call throws (\<open>None\<close>: the call goes through). A call that fails leaves
  the store as it was.
\<close>

datatype role = Admin | Member

datatype GeoPoint = GeoPoint (latitude: real) (longitude: real)

record UserData =
  username :: "string option"
  email :: "string option"
  location :: "GeoPoint option"
  role :: "role option"
  joinedAt :: "int option"
  streakDays :: "int option"
  lastCheckIn :: "int option"

record UserProfile = UserData +
  profile_id :: string

record RelapseRecord =
  userId :: string
  timestamp :: int
  relapse_notes :: string

text \<open>The fields object passed to \<^verbatim>\<open>updateDoc\<close>: \<open>None\<close> is a field left out.\<close>

record UserUpdate =
  upd_streakDays :: "int option"
  upd_lastCheckIn :: "int option"

datatype call =
    GetDoc string
  | UpdateDoc string UserUpdate
  | SetUserDoc string UserData
  | AddRelapse RelapseRecord

record world =
  users :: "string \<rightharpoonup> UserData"
  relapses :: "RelapseRecord list"
  calls :: "call list"

definition logCall :: "call \<Rightarrow> world \<Rightarrow> world" where
  "logCall c w = w\<lparr>calls := calls w @ [c]\<rparr>"

definition getDoc :: "string option \<Rightarrow> world \<Rightarrow> string \<Rightarrow> (string + UserData option) \<times> world" where
  "getDoc fault w uid =
     (case fault of
        Some e \<Rightarrow> (Inl e, logCall (GetDoc uid) w)
      | None \<Rightarrow> (Inr (users w uid), logCall (GetDoc uid) w))"

definition applyUpdate :: "UserUpdate \<Rightarrow> UserData \<Rightarrow> UserData" where
  "applyUpdate f d =
     d\<lparr>streakDays := (case upd_streakDays f of Some n \<Rightarrow> Some n | None \<Rightarrow> streakDays d),
       lastCheckIn := (case upd_lastCheckIn f of Some t \<Rightarrow> Some t | None \<Rightarrow> lastCheckIn d)\<rparr>"

text \<open>\<^verbatim>\<open>updateDoc\<close> is rejected by the store when the document does not exist.\<close>

definition updateDoc :: "string option \<Rightarrow> world \<Rightarrow> string \<Rightarrow> UserUpdate \<Rightarrow> (string + unit) \<times> world" where
  "updateDoc fault w uid f =
     (case fault of
        Some e \<Rightarrow> (Inl e, logCall (UpdateDoc uid f) w)
      | None \<Rightarrow>
          (case users w uid of
             None \<Rightarrow> (Inl ''No document to update'', logCall (UpdateDoc uid f) w)
           | Some d \<Rightarrow>
               (Inr (), logCall (UpdateDoc uid f) (w\<lparr>users := (users w)(uid \<mapsto> applyUpdate f d)\<rparr>))))"

definition setUserDoc :: "string option \<Rightarrow> world \<Rightarrow> string \<Rightarrow> UserData \<Rightarrow> (string + unit) \<times> world" where
  "setUserDoc fault w uid d =
     (case fault of
        Some e \<Rightarrow> (Inl e, logCall (SetUserDoc uid d) w)
      | None \<Rightarrow> (Inr (), logCall (SetUserDoc uid d) (w\<lparr>users := (users w)(uid \<mapsto> d)\<rparr>)))"

definition addRelapse :: "string option \<Rightarrow> world \<Rightarrow> RelapseRecord \<Rightarrow> (string + unit) \<times> world" where
  "addRelapse fault w r =
     (case fault of
        Some e \<Rightarrow> (Inl e, logCall (AddRelapse r) w)
      | None \<Rightarrow> (Inr (), logCall (AddRelapse r) (w\<lparr>relapses := relapses w @ [r]\<rparr>)))"

section \<open>The operations of the application\<close>

text \<open>
  The object an operation resolves to: \<^verbatim>\<open>{ success, streakDays, message }\<close>,
  with \<open>None\<close> for a \<^verbatim>\<open>streakDays\<close> that is left out or undefined.
\<close>

record OpResult =
  success :: bool
  res_streakDays :: "int option"
  message :: string

definition failed :: "string \<Rightarrow> OpResult" where
  "failed e = \<lparr>success = False, res_streakDays = None, message = e\<rparr>"

text \<open>
  \<^verbatim>\<open>isYesterday\<close> and \<^verbatim>\<open>isToday\<close> of \<^verbatim>\<open>updateStreak\<close>, as the source writes
  them.
\<close>

definition isYesterday :: "(int \<Rightarrow> int) \<Rightarrow> int \<Rightarrow> int \<Rightarrow> bool" where
  "isYesterday tza lastCheckInDate now \<longleftrightarrow>
     getDate tza lastCheckInDate = getDate tza now - 1 \<and>
     getMonth tza lastCheckInDate = getMonth tza now \<and>
     getFullYear tza lastCheckInDate = getFullYear tza now"

definition isToday :: "(int \<Rightarrow> int) \<Rightarrow> int \<Rightarrow> int \<Rightarrow> bool" where
  "isToday tza lastCheckInDate now \<longleftrightarrow>
     getDate tza lastCheckInDate = getDate tza now \<and>
     getMonth tza lastCheckInDate = getMonth tza now \<and>
     getFullYear tza lastCheckInDate = getFullYear tza now"

text \<open>\<^verbatim>\<open>userData.lastCheckIn?.toDate() || new Date(0)\<close>\<close>

definition lastCheckInDate :: "UserData \<Rightarrow> int" where
  "lastCheckInDate userData = (case lastCheckIn userData of Some ts \<Rightarrow> ts | None \<Rightarrow> 0)"

text \<open>\<^verbatim>\<open>userData.streakDays || 0\<close>\<close>

definition streakDaysOr0 :: "UserData \<Rightarrow> int" where
  "streakDaysOr0 userData = (case streakDays userData of Some n \<Rightarrow> n | None \<Rightarrow> 0)"

text \<open>
  \<^verbatim>\<open>streakDays += 1\<close> is the addition of JavaScript numbers, which are IEEE 754
  doubles: the exact sum, rounded to the nearest double, a tie going to the
  double with the even significand (ECMA-262, \<^verbatim>\<open>Number::add\<close>). Up to \<open>2 ^ 53\<close>
  in magnitude every integer is a double. From there on a double has 53
  significant bits: with \<open>bitlen\<close> the number of bits of the magnitude, the
  doubles are the multiples of \<open>2 ^ (bitlen - 53)\<close>. The sums that arise here
  are far below the largest double, so overflow to infinity has no part.
\<close>

definition roundToDouble :: "int \<Rightarrow> int" where
  "roundToDouble x =
     (if \<bar>x\<bar> < 2 ^ 53 then x
      else
        (let u = 2 ^ nat (bitlen \<bar>x\<bar> - 53); q = x div u; r = x mod u in
         if 2 * r < u then q * u
         else if u < 2 * r then (q + 1) * u
         else if even q then q * u
         else (q + 1) * u))"

definition jsAdd :: "int \<Rightarrow> int \<Rightarrow> int" where
  "jsAdd a b = roundToDouble (a + b)"

text \<open>
  \<^verbatim>\<open>updateStreak(userId)\<close>. \<open>rdFault\<close> and \<open>wrFault\<close> are the faults of the
  \<^verbatim>\<open>getDoc\<close> and of the \<^verbatim>\<open>updateDoc\<close> call; \<open>now\<close> is the clock read by
  \<^verbatim>\<open>new Date()\<close> and \<open>tsNow\<close> the clock read by \<^verbatim>\<open>Timestamp.now()\<close> when the
  update is built. Whatever is thrown inside the \<^verbatim>\<open>try\<close> block is caught and
  becomes a result with the message of the error; a store handle that was
  never initialised throws before the read and counts as a fault of the read.
\<close>

definition updateStreak ::
  "(int \<Rightarrow> int) \<Rightarrow> string option \<Rightarrow> string option \<Rightarrow> int \<Rightarrow> int \<Rightarrow> world \<Rightarrow> string
     \<Rightarrow> OpResult \<times> world" where
  "updateStreak tza rdFault wrFault now tsNow w uid =
     (case getDoc rdFault w uid of
        (Inl e, w1) \<Rightarrow> (failed e, w1)
      | (Inr None, w1) \<Rightarrow> (failed ''User not found'', w1)
      | (Inr (Some userData), w1) \<Rightarrow>
          (let last = lastCheckInDate userData;
               yesterday = isYesterday tza last now;
               today = isToday tza last now
           in if today then
                (\<lparr>success = True, res_streakDays = streakDays userData,
                  message = ''Already checked in today''\<rparr>, w1)
              else
                (let s0 = streakDaysOr0 userData;
                     s1 = (if yesterday then jsAdd s0 1 else if \<not> today then 1 else s0)
                 in case updateDoc wrFault w1 uid
                           \<lparr>upd_streakDays = Some s1, upd_lastCheckIn = Some tsNow\<rparr> of
                      (Inl e, w2) \<Rightarrow> (failed e, w2)
                    | (Inr u, w2) \<Rightarrow>
                        (\<lparr>success = True, res_streakDays = Some s1,
                          message = ''Streak updated successfully''\<rparr>, w2))))"

text \<open>
  \<^verbatim>\<open>logRelapse(userId, notes?)\<close>. The two \<^verbatim>\<open>Timestamp.now()\<close> readings are
  \<open>tsRecord\<close> and \<open>tsReset\<close>; \<open>recFault\<close> and \<open>wrFault\<close> are the faults of the
  \<^verbatim>\<open>setDoc\<close> and of the \<^verbatim>\<open>updateDoc\<close> call.
\<close>

definition notesOrEmpty :: "string option \<Rightarrow> string" where
  "notesOrEmpty notes = (case notes of Some n \<Rightarrow> n | None \<Rightarrow> '''')"

definition logRelapse ::
  "string option \<Rightarrow> string option \<Rightarrow> int \<Rightarrow> int \<Rightarrow> world \<Rightarrow> string \<Rightarrow> string option
     \<Rightarrow> OpResult \<times> world" where
  "logRelapse recFault wrFault tsRecord tsReset w uid notes' =
     (case addRelapse recFault w
             \<lparr>userId = uid, timestamp = tsRecord, relapse_notes = notesOrEmpty notes'\<rparr> of
        (Inl e, w1) \<Rightarrow> (failed e, w1)
      | (Inr u, w1) \<Rightarrow>
          (case updateDoc wrFault w1 uid
                  \<lparr>upd_streakDays = Some 0, upd_lastCheckIn = Some tsReset\<rparr> of
             (Inl e, w2) \<Rightarrow> (failed e, w2)
           | (Inr u', w2) \<Rightarrow>
               (\<lparr>success = True, res_streakDays = None,
                 message = ''Progress reset. Remember: every moment is a new opportunity.''\<rparr>,
                w2)))"

text \<open>
  \<^verbatim>\<open>register(email, password, username, location?)\<close>. \<open>authResult\<close> is what
  \<^verbatim>\<open>createUserWithEmailAndPassword\<close> gives: the message of its error, or the
  uid of the new user. \<open>tsJoined\<close> and \<open>tsCheckIn\<close> are the two readings of
  \<^verbatim>\<open>Timestamp.now()\<close>. The result is the boolean the source returns.
\<close>

definition register ::
  "(string + string) \<Rightarrow> string option \<Rightarrow> int \<Rightarrow> int \<Rightarrow> world
     \<Rightarrow> string \<Rightarrow> string \<Rightarrow> string \<Rightarrow> (real \<times> real) option \<Rightarrow> bool \<times> world" where
  "register authResult wrFault tsJoined tsCheckIn w email' password username' location' =
     (case authResult of
        Inl e \<Rightarrow> (False, w)
      | Inr uid \<Rightarrow>
          (case setUserDoc wrFault w uid
                  \<lparr>username = Some username',
                   email = Some email',
                   location = (case location' of
                                 Some (lat, lng) \<Rightarrow> Some (GeoPoint lat lng)
                               | None \<Rightarrow> None),
                   role = Some Member,
                   joinedAt = Some tsJoined,
                   streakDays = Some 0,
                   lastCheckIn = Some tsCheckIn\<rparr> of
             (Inl e, w1) \<Rightarrow> (False, w1)
           | (Inr u, w1) \<Rightarrow> (True, w1)))"

text \<open>
  \<^verbatim>\<open>getUserProfile(userId)\<close>, of type \<^verbatim>\<open>Promise<UserProfile | null>\<close>: \<open>None\<close> is
  \<^verbatim>\<open>null\<close>. \<open>dbReady\<close> says whether the Firestore handle \<^verbatim>\<open>db\<close> was
  initialised.
\<close>

definition onlyId :: "string \<Rightarrow> UserProfile" where
  "onlyId uid =
     \<lparr>username = None, email = None, location = None, role = None, joinedAt = None,
      streakDays = None, lastCheckIn = None, profile_id = uid\<rparr>"

definition withId :: "string \<Rightarrow> UserData \<Rightarrow> UserProfile" where
  "withId uid d =
     \<lparr>username = username d, email = email d, location = location d, role = role d,
      joinedAt = joinedAt d, streakDays = streakDays d, lastCheckIn = lastCheckIn d,
      profile_id = uid\<rparr>"

definition getUserProfile ::
  "bool \<Rightarrow> string option \<Rightarrow> world \<Rightarrow> string \<Rightarrow> UserProfile option \<times> world" where
  "getUserProfile dbReady rdFault w uid =
     (if \<not> dbReady then (Some (onlyId uid), w)
      else
        (case getDoc rdFault w uid of
           (Inl e, w1) \<Rightarrow> (Some (onlyId uid), w1)
         | (Inr None, w1) \<Rightarrow> (Some (onlyId uid), w1)
         | (Inr (Some d), w1) \<Rightarrow> (Some (withId uid d), w1)))"

section \<open>What a call writes\<close>

text \<open>
  The value a call gives to \<^verbatim>\<open>streakDays\<close> and to \<^verbatim>\<open>lastCheckIn\<close> (\<open>None\<close>: the
  call does not write the field), and the property that a call writes both
  fields or neither, the check-in being the instant \<open>t\<close>.
\<close>

fun streakWritten :: "call \<Rightarrow> int option" where
  "streakWritten (UpdateDoc u f) = upd_streakDays f"
| "streakWritten (SetUserDoc u d) = streakDays d"
| "streakWritten (GetDoc u) = None"
| "streakWritten (AddRelapse r) = None"

fun checkInWritten :: "call \<Rightarrow> int option" where
  "checkInWritten (UpdateDoc u f) = upd_lastCheckIn f"
| "checkInWritten (SetUserDoc u d) = lastCheckIn d"
| "checkInWritten (GetDoc u) = None"
| "checkInWritten (AddRelapse r) = None"

definition writtenTogether :: "int \<Rightarrow> call \<Rightarrow> bool" where
  "writtenTogether t c \<longleftrightarrow>
     (streakWritten c \<noteq> None \<longleftrightarrow> checkInWritten c \<noteq> None) \<and>
     (checkInWritten c \<noteq> None \<longrightarrow> checkInWritten c = Some t)"

section \<open>Scenario data\<close>

text \<open>
  A profile as \<^verbatim>\<open>register\<close> leaves it, five days into a streak, with the last
  check-in at 2024-03-10T00:00Z, and a store that holds one document.
\<close>

definition exampleUser :: UserData where
  "exampleUser =
     \<lparr>username = Some ''ann'', email = Some ''ann@example.org'', location = None,
      role = Some Member, joinedAt = Some (utcDate 2024 0 1),
      streakDays = Some 5, lastCheckIn = Some (utcDate 2024 2 10)\<rparr>"

definition exampleWorld :: "UserData \<Rightarrow> world" where
  "exampleWorld d = \<lparr>users = [''u1'' \<mapsto> d], relapses = [], calls = []\<rparr>"

definition blankUser :: UserData where
  "blankUser =
     \<lparr>username = None, email = None, location = None, role = None, joinedAt = None,
      streakDays = None, lastCheckIn = None\<rparr>"

definition emptyWorld :: world where
  "emptyWorld = \<lparr>users = Map.empty, relapses = [], calls = []\<rparr>"

section \<open>The calendar\<close>

lemma div_bounds: "0 < k \<Longrightarrow> k * (x div k) \<le> x \<and> x < k * (x div k) + (k::int)"
  using mult_div_mod_eq[of k x] pos_mod_bound[of k x] pos_mod_sign[of k x] by linarith

lemma DayFromYear_lower: "146097 * (y - 1970) - 592 \<le> 400 * DayFromYear y"
  unfolding DayFromYear_def
  using div_bounds[of 4 "y - 1969"] div_bounds[of 100 "y - 1901"] div_bounds[of 400 "y - 1601"]
  by simp

lemma DayFromYear_upper: "400 * DayFromYear y \<le> 146097 * (y - 1970) + 888"
  unfolding DayFromYear_def
  using div_bounds[of 4 "y - 1969"] div_bounds[of 100 "y - 1901"] div_bounds[of 400 "y - 1601"]
  by simp

text \<open>The computed year is the one whose days hold the given day.\<close>

lemma YearFromDay_bounds:
  "DayFromYear (YearFromDay d) \<le> d \<and> d < DayFromYear (YearFromDay d + 1)"
proof -
  define q where "q = (400 * d) div 146097"
  have q1: "146097 * q \<le> 400 * d" and q2: "400 * d < 146097 * q + 146097"
    unfolding q_def using div_bounds[of 146097 "400 * d"] by simp_all
  have lo: "DayFromYear (1970 + q - 1) \<le> d"
    using DayFromYear_upper[of "1970 + q - 1"] q1 by simp
  have hi: "d < DayFromYear (1970 + q + 2)"
    using DayFromYear_lower[of "1970 + q + 2"] q2 by simp
  show ?thesis
    unfolding YearFromDay_def Let_def q_def[symmetric]
    using lo hi by (auto simp: algebra_simps)
qed

text \<open>
  A day number is recovered from year, month and date, so two instants with the
  same three fields lie on the same day, and the fields depend on the day only.
\<close>

lemma Day_decomp:
  "Day t = DayFromYear (YearFromTime t) + monthStart (MonthFromTime t) (InLeapYear t) + DateFromTime t - 1"
  unfolding DateFromTime_def MonthFromTime_def monthStart_def DayWithinYear_def Let_def
  by simp

lemma fields_of_Day:
  assumes "Day a = Day b"
  shows "YearFromTime a = YearFromTime b" and "MonthFromTime a = MonthFromTime b"
    and "DateFromTime a = DateFromTime b"
proof -
  show y: "YearFromTime a = YearFromTime b"
    using assms by (simp add: YearFromTime_def)
  have l: "InLeapYear a = InLeapYear b" using y by (simp add: InLeapYear_def)
  have w: "DayWithinYear a = DayWithinYear b" using y assms by (simp add: DayWithinYear_def)
  show m: "MonthFromTime a = MonthFromTime b" using l w by (simp add: MonthFromTime_def)
  show "DateFromTime a = DateFromTime b" using l w m by (simp add: DateFromTime_def)
qed

lemma Day_of_fields:
  assumes "YearFromTime a = YearFromTime b" and "MonthFromTime a = MonthFromTime b"
  shows "Day a - Day b = DateFromTime a - DateFromTime b"
proof -
  have "InLeapYear a = InLeapYear b" using assms(1) by (simp add: InLeapYear_def)
  then show ?thesis using Day_decomp[of a] Day_decomp[of b] assms by simp
qed

lemma isToday_iff: "isToday tza a b \<longleftrightarrow> localDay tza a = localDay tza b"
proof
  assume "isToday tza a b"
  then show "localDay tza a = localDay tza b"
    using Day_of_fields[of "LocalTime tza a" "LocalTime tza b"]
    by (simp add: isToday_def localDay_def getDate_def getMonth_def getFullYear_def)
next
  assume "localDay tza a = localDay tza b"
  then show "isToday tza a b"
    using fields_of_Day[of "LocalTime tza a" "LocalTime tza b"]
    by (simp add: isToday_def localDay_def getDate_def getMonth_def getFullYear_def)
qed

lemma isYesterday_iff:
  "isYesterday tza a b \<longleftrightarrow>
     localDay tza a + 1 = localDay tza b \<and> getMonth tza a = getMonth tza b \<and>
     getFullYear tza a = getFullYear tza b"
  using Day_of_fields[of "LocalTime tza a" "LocalTime tza b"]
  by (auto simp add: isYesterday_def localDay_def getDate_def getMonth_def getFullYear_def)

section \<open>Numbers\<close>

text \<open>
  Adding 1 is exact as long as the sum is a double: from \<open>- (2 ^ 53)\<close> up to
  \<open>2 ^ 53 - 1\<close>. At \<open>2 ^ 53\<close> the sum lies half-way between two doubles and is
  rounded back to \<open>2 ^ 53\<close>.
\<close>

lemma roundToDouble_small: "\<bar>x\<bar> < 2 ^ 53 \<Longrightarrow> roundToDouble x = x"
  by (simp add: roundToDouble_def)

lemma roundToDouble_2_53: "roundToDouble 9007199254740992 = 9007199254740992"
  by code_simp

lemma jsAdd_one_exact:
  assumes "- (2 ^ 53) \<le> n" and "n < 2 ^ 53"
  shows "jsAdd n 1 = n + 1"
proof (cases "n + 1 = 9007199254740992")
  case True
  then show ?thesis using roundToDouble_2_53 by (simp add: jsAdd_def)
next
  case False
  then have "\<bar>n + 1\<bar> < 2 ^ 53" using assms by simp
  then show ?thesis unfolding jsAdd_def by (rule roundToDouble_small)
qed

lemma jsAdd_one_at_2_53: "jsAdd 9007199254740992 1 = 9007199254740992"
  by code_simp

section \<open>The store and the paths of the operations\<close>

lemma getDoc_ok: "getDoc None w uid = (Inr (users w uid), logCall (GetDoc uid) w)"
  by (simp add: getDoc_def)

lemma getDoc_fault: "getDoc (Some e) w uid = (Inl e, logCall (GetDoc uid) w)"
  by (simp add: getDoc_def)

lemma users_logCall [simp]: "users (logCall c w) = users w"
  and relapses_logCall [simp]: "relapses (logCall c w) = relapses w"
  and calls_logCall [simp]: "calls (logCall c w) = calls w @ [c]"
  by (simp_all add: logCall_def)

subsection \<open>\<^verbatim>\<open>updateStreak\<close>, one equation for each path\<close>

lemma updateStreak_read_fault:
  "updateStreak tza (Some e) wrFault now tsNow w uid = (failed e, logCall (GetDoc uid) w)"
  by (simp add: updateStreak_def getDoc_fault)

lemma updateStreak_not_found:
  "users w uid = None \<Longrightarrow>
   updateStreak tza None wrFault now tsNow w uid = (failed ''User not found'', logCall (GetDoc uid) w)"
  by (simp add: updateStreak_def getDoc_ok)

lemma updateStreak_today:
  "users w uid = Some d \<Longrightarrow> isToday tza (lastCheckInDate d) now \<Longrightarrow>
   updateStreak tza None wrFault now tsNow w uid =
     (\<lparr>success = True, res_streakDays = streakDays d, message = ''Already checked in today''\<rparr>,
      logCall (GetDoc uid) w)"
  by (simp add: updateStreak_def getDoc_ok)


lemma updateStreak_write_fault:
  "users w uid = Some d \<Longrightarrow> \<not> isToday tza (lastCheckInDate d) now \<Longrightarrow>
   s = (if isYesterday tza (lastCheckInDate d) now then jsAdd (streakDaysOr0 d) 1 else 1) \<Longrightarrow>
   updateStreak tza None (Some e) now tsNow w uid =
     (failed e,
      logCall (UpdateDoc uid \<lparr>upd_streakDays = Some s, upd_lastCheckIn = Some tsNow\<rparr>)
        (logCall (GetDoc uid) w))"
  by (simp add: updateStreak_def getDoc_ok updateDoc_def Let_def)

lemma updateStreak_written:
  "users w uid = Some d \<Longrightarrow> \<not> isToday tza (lastCheckInDate d) now \<Longrightarrow>
   s = (if isYesterday tza (lastCheckInDate d) now then jsAdd (streakDaysOr0 d) 1 else 1) \<Longrightarrow>
   updateStreak tza None None now tsNow w uid =
     (\<lparr>success = True, res_streakDays = Some s, message = ''Streak updated successfully''\<rparr>,
      logCall (UpdateDoc uid \<lparr>upd_streakDays = Some s, upd_lastCheckIn = Some tsNow\<rparr>)
        ((logCall (GetDoc uid) w)
           \<lparr>users := (users w)(uid \<mapsto> d\<lparr>streakDays := Some s, lastCheckIn := Some tsNow\<rparr>)\<rparr>))"
  by (simp add: updateStreak_def getDoc_ok updateDoc_def Let_def applyUpdate_def)

lemma failed_not_success [simp]: "\<not> success (failed e)"
  by (simp add: failed_def)

lemma updateStreak_success:
  assumes "updateStreak tza rdFault wrFault now tsNow w uid = (r, w')" and "success r"
  shows "rdFault = None \<and> (\<exists>d. users w uid = Some d \<and>
           (isToday tza (lastCheckInDate d) now \<or> wrFault = None))"
proof (cases rdFault)
  case (Some e)
  then show ?thesis using assms updateStreak_read_fault[of tza e wrFault now tsNow w uid]
    by auto
next
  case None
  show ?thesis
  proof (cases "users w uid")
    case N: None
    then show ?thesis using assms None updateStreak_not_found[of w uid tza wrFault now tsNow]
      by auto
  next
    case (Some d)
    show ?thesis
    proof (cases wrFault)
      case W: None
      then show ?thesis using None Some by simp
    next
      case W: (Some e)
      show ?thesis
      proof (cases "isToday tza (lastCheckInDate d) now")
        case True then show ?thesis using None Some by simp
      next
        case False
        then show ?thesis
          using assms None Some W updateStreak_write_fault[OF Some False refl, of e tsNow]
          by auto
      qed
    qed
  qed
qed

text \<open>A successful call that did not stop at "today" wrote the new streak.\<close>

lemma updateStreak_success_written:
  assumes run: "updateStreak tza rdFault wrFault now tsNow w uid = (r, w')" and ok: "success r"
    and d: "users w uid = Some d" and nt: "\<not> isToday tza (lastCheckInDate d) now"
    and s: "s = (if isYesterday tza (lastCheckInDate d) now then jsAdd (streakDaysOr0 d) 1 else 1)"
  shows "res_streakDays r = Some s \<and>
         users w' = (users w)(uid \<mapsto> d\<lparr>streakDays := Some s, lastCheckIn := Some tsNow\<rparr>)"
proof -
  from updateStreak_success[OF run ok] d nt have f: "rdFault = None" "wrFault = None" by auto
  show ?thesis using run updateStreak_written[OF d nt s, of tsNow] unfolding f by auto
qed

text \<open>
  After a call that wrote, a second call on the local calendar day of the
  written \<^verbatim>\<open>lastCheckIn\<close> stops at "today" and issues no write: calls made
  one after the other check in at most once a day.
\<close>

lemma updateStreak_second_call_same_day:
  assumes d: "users w uid = Some d" and nt: "\<not> isToday tza (lastCheckInDate d) now"
    and s: "s = (if isYesterday tza (lastCheckInDate d) now then jsAdd (streakDaysOr0 d) 1 else 1)"
    and run: "updateStreak tza None None now tsNow w uid = (r, w1)"
    and same: "localDay tza tsNow = localDay tza now2"
  shows "updateStreak tza None wrFault now2 tsNow2 w1 uid =
           (\<lparr>success = True, res_streakDays = Some s, message = ''Already checked in today''\<rparr>,
            logCall (GetDoc uid) w1)"
proof -
  let ?d = "d\<lparr>streakDays := Some s, lastCheckIn := Some tsNow\<rparr>"
  have u: "users w1 uid = Some ?d"
    using run updateStreak_written[OF d nt s, of tsNow] by auto
  have "isToday tza (lastCheckInDate ?d) now2"
    unfolding isToday_iff using same by (simp add: lastCheckInDate_def)
  from updateStreak_today[OF u this, of wrFault tsNow2] show ?thesis by simp
qed

subsection \<open>\<^verbatim>\<open>logRelapse\<close> and \<^verbatim>\<open>register\<close>\<close>

lemma logRelapse_done:
  "users w uid = Some d \<Longrightarrow>
   logRelapse None None tsRecord tsReset w uid notes' =
     (\<lparr>success = True, res_streakDays = None,
       message = ''Progress reset. Remember: every moment is a new opportunity.''\<rparr>,
      \<lparr>users = (users w)(uid \<mapsto> d\<lparr>streakDays := Some 0, lastCheckIn := Some tsReset\<rparr>),
       relapses = relapses w @
         [\<lparr>userId = uid, timestamp = tsRecord, relapse_notes = notesOrEmpty notes'\<rparr>],
       calls = calls w @
         [AddRelapse \<lparr>userId = uid, timestamp = tsRecord, relapse_notes = notesOrEmpty notes'\<rparr>,
          UpdateDoc uid \<lparr>upd_streakDays = Some 0, upd_lastCheckIn = Some tsReset\<rparr>]\<rparr>)"
  by (simp add: logRelapse_def addRelapse_def updateDoc_def logCall_def applyUpdate_def)

lemma logRelapse_success:
  assumes "logRelapse recFault wrFault tsRecord tsReset w uid notes' = (r, w')" and "success r"
  shows "recFault = None \<and> wrFault = None \<and> (\<exists>d. users w uid = Some d)"
  using assms
  by (auto simp: logRelapse_def addRelapse_def updateDoc_def logCall_def
           split: option.splits)

lemma register_done:
  "register (Inr uid) None tsJoined tsCheckIn w email' password username' location' =
     (True,
      logCall (SetUserDoc uid
                 \<lparr>username = Some username', email = Some email',
                  location = (case location' of Some (lat, lng) \<Rightarrow> Some (GeoPoint lat lng)
                              | None \<Rightarrow> None),
                  role = Some Member, joinedAt = Some tsJoined,
                  streakDays = Some 0, lastCheckIn = Some tsCheckIn\<rparr>)
        (w\<lparr>users := (users w)(uid \<mapsto>
                 \<lparr>username = Some username', email = Some email',
                  location = (case location' of Some (lat, lng) \<Rightarrow> Some (GeoPoint lat lng)
                              | None \<Rightarrow> None),
                  role = Some Member, joinedAt = Some tsJoined,
                  streakDays = Some 0, lastCheckIn = Some tsCheckIn\<rparr>)\<rparr>))"
  by (simp add: register_def setUserDoc_def)

lemma register_success:
  "register authResult wrFault tsJoined tsCheckIn w email' password username' location' = (True, w1)
   \<Longrightarrow> wrFault = None \<and> (\<exists>uid. authResult = Inr uid)"
  by (auto simp: register_def setUserDoc_def split: sum.splits option.splits)

lemma writtenTogether_simps [simp]:
  "writtenTogether t (GetDoc u)"
  "writtenTogether t (AddRelapse r)"
  "writtenTogether t (UpdateDoc u \<lparr>upd_streakDays = Some n, upd_lastCheckIn = Some t\<rparr>)"
  "streakDays d = Some n \<Longrightarrow> lastCheckIn d = Some t \<Longrightarrow> writtenTogether t (SetUserDoc u d)"
  by (simp_all add: writtenTogether_def)

section \<open>Claims\<close>

text \<open>
  C1. When the profile's \<^verbatim>\<open>lastCheckIn\<close> and \<open>now\<close> have the same local year, month
  and day of the month, \<^verbatim>\<open>updateStreak\<close> answers success with the stored
  \<^verbatim>\<open>streakDays\<close> and the message "Already checked in today", and the store is
  as before but for the record of the one read: no write is issued, whatever
  the write would have met. The result object of the source has no \<^verbatim>\<open>changed\<close>
  field; that nothing changed is the equation on the store.
\<close>

theorem updateStreak_same_day:
  assumes "users w uid = Some d" and "lastCheckIn d = Some ts"
    and "getFullYear tza ts = getFullYear tza now"
    and "getMonth tza ts = getMonth tza now"
    and "getDate tza ts = getDate tza now"
  shows "updateStreak tza None wrFault now tsNow w uid =
           (\<lparr>success = True, res_streakDays = streakDays d,
             message = ''Already checked in today''\<rparr>,
            w\<lparr>calls := calls w @ [GetDoc uid]\<rparr>)"
proof -
  have "isToday tza (lastCheckInDate d) now"
    using assms by (simp add: isToday_def lastCheckInDate_def)
  from updateStreak_today[OF assms(1) this] show ?thesis by (simp add: logCall_def)
qed

theorem updateStreak_same_day_witness:
  "updateStreak utc None None (utcDate 2024 2 10 + 72000000) (utcDate 2024 2 10 + 72000001)
     (exampleWorld exampleUser) ''u1'' =
   (\<lparr>success = True, res_streakDays = Some 5, message = ''Already checked in today''\<rparr>,
    (exampleWorld exampleUser)\<lparr>calls := [GetDoc ''u1'']\<rparr>)"
proof -
  have u: "users (exampleWorld exampleUser) ''u1'' = Some exampleUser"
    by (simp add: exampleWorld_def)
  have l: "lastCheckIn exampleUser = Some (utcDate 2024 2 10)"
    by (simp add: exampleUser_def)
  have y: "getFullYear utc (utcDate 2024 2 10) = getFullYear utc (utcDate 2024 2 10 + 72000000)"
    by code_simp
  have m: "getMonth utc (utcDate 2024 2 10) = getMonth utc (utcDate 2024 2 10 + 72000000)"
    by code_simp
  have t: "getDate utc (utcDate 2024 2 10) = getDate utc (utcDate 2024 2 10 + 72000000)"
    by code_simp
  show ?thesis
    using updateStreak_same_day[OF u l y m t, of None "utcDate 2024 2 10 + 72000001"]
    by (simp add: exampleWorld_def exampleUser_def)
qed

text \<open>
  C2, as the claim states it, fails: \<^verbatim>\<open>streakDays += 1\<close> is an addition of
  doubles. For a profile with \<^verbatim>\<open>streakDays\<close> \<open>2 ^ 53\<close> (9007199254740992) whose
  last check-in was the day before, the call succeeds and returns and stores
  \<open>2 ^ 53\<close> again, not \<open>2 ^ 53 + 1\<close>. The last check-in is 2024-03-10 and \<open>now\<close>
  is 2024-03-11, 09:00.
\<close>

theorem updateStreak_next_day_rounding_counterexample:
  "isYesterday utc (utcDate 2024 2 10) (utcDate 2024 2 11 + 32400000) \<and>
   fst (updateStreak utc None None (utcDate 2024 2 11 + 32400000) (utcDate 2024 2 11 + 32400001)
          (exampleWorld (exampleUser\<lparr>streakDays := Some 9007199254740992\<rparr>)) ''u1'') =
     \<lparr>success = True, res_streakDays = Some 9007199254740992,
      message = ''Streak updated successfully''\<rparr> \<and>
   (9007199254740992 :: int) \<noteq> 9007199254740992 + 1"
proof -
  let ?d = "exampleUser\<lparr>streakDays := Some 9007199254740992\<rparr>"
  let ?now = "utcDate 2024 2 11 + 32400000"
  have u: "users (exampleWorld ?d) ''u1'' = Some ?d" by (simp add: exampleWorld_def)
  have l: "lastCheckInDate ?d = utcDate 2024 2 10"
    by (simp add: lastCheckInDate_def exampleUser_def)
  have dy: "localDay utc (utcDate 2024 2 10) + 1 = localDay utc ?now" by code_simp
  have m: "getMonth utc (utcDate 2024 2 10) = getMonth utc ?now" by code_simp
  have y: "getFullYear utc (utcDate 2024 2 10) = getFullYear utc ?now" by code_simp
  have yd: "isYesterday utc (utcDate 2024 2 10) ?now"
    unfolding isYesterday_iff using dy m y by simp
  have nt: "\<not> isToday utc (lastCheckInDate ?d) ?now"
    unfolding l isToday_iff using dy by simp
  have s: "9007199254740992 =
             (if isYesterday utc (lastCheckInDate ?d) ?now then jsAdd (streakDaysOr0 ?d) 1 else 1)"
    unfolding l using yd jsAdd_one_at_2_53 by (simp add: streakDaysOr0_def)
  from updateStreak_written[OF u nt s, of "utcDate 2024 2 11 + 32400001"] yd
  show ?thesis by simp
qed

text \<open>
  C2, amended. When the profile's \<^verbatim>\<open>lastCheckIn\<close> lies on the local calendar
  day just before the day of \<open>now\<close>, in the same month and year, and the old
  streak is at least \<open>- (2 ^ 53)\<close> and below \<open>2 ^ 53\<close>, a successful
  \<^verbatim>\<open>updateStreak\<close> returns and stores the old streak plus one. The old streak
  is \<^verbatim>\<open>userData.streakDays || 0\<close>: the stored number, and 0 for a profile
  without one.
\<close>

theorem updateStreak_next_day_increments:
  assumes "users w uid = Some d" and "lastCheckIn d = Some ts"
    and "localDay tza ts + 1 = localDay tza now"
    and "getMonth tza ts = getMonth tza now"
    and "getFullYear tza ts = getFullYear tza now"
    and "- (2 ^ 53) \<le> streakDaysOr0 d" and "streakDaysOr0 d < 2 ^ 53"
    and "updateStreak tza rdFault wrFault now tsNow w uid = (r, w')"
    and "success r"
  shows "res_streakDays r = Some (streakDaysOr0 d + 1) \<and>
         users w' = (users w)(uid \<mapsto> d\<lparr>streakDays := Some (streakDaysOr0 d + 1),
                                       lastCheckIn := Some tsNow\<rparr>) \<and>
         (\<forall>n. streakDays d = Some n \<longrightarrow> res_streakDays r = Some (n + 1))"
proof -
  have l: "lastCheckInDate d = ts" using assms(2) by (simp add: lastCheckInDate_def)
  have y: "isYesterday tza (lastCheckInDate d) now"
    unfolding l isYesterday_iff using assms(3-5) by simp
  have nt: "\<not> isToday tza (lastCheckInDate d) now"
    unfolding l isToday_iff using assms(3) by simp
  have s: "streakDaysOr0 d + 1 =
             (if isYesterday tza (lastCheckInDate d) now then jsAdd (streakDaysOr0 d) 1 else 1)"
    using y jsAdd_one_exact[OF assms(6,7)] by simp
  from updateStreak_success_written[OF assms(8,9,1) nt s]
  show ?thesis by (auto simp: streakDaysOr0_def)
qed

theorem updateStreak_next_day_increments_witness:
  "\<exists>r w'. updateStreak utc None None (utcDate 2024 2 11 + 32400000) (utcDate 2024 2 11 + 32400001)
            (exampleWorld exampleUser) ''u1'' = (r, w') \<and> success r \<and>
          res_streakDays r = Some 6 \<and>
          users w' ''u1'' = Some (exampleUser\<lparr>streakDays := Some 6,
                                 lastCheckIn := Some (utcDate 2024 2 11 + 32400001)\<rparr>)"
proof -
  obtain r w' where run:
    "updateStreak utc None None (utcDate 2024 2 11 + 32400000) (utcDate 2024 2 11 + 32400001)
       (exampleWorld exampleUser) ''u1'' = (r, w')"
    by (cases "updateStreak utc None None (utcDate 2024 2 11 + 32400000)
                 (utcDate 2024 2 11 + 32400001) (exampleWorld exampleUser) ''u1''") blast
  have u: "users (exampleWorld exampleUser) ''u1'' = Some exampleUser"
    by (simp add: exampleWorld_def)
  have l: "lastCheckIn exampleUser = Some (utcDate 2024 2 10)"
    by (simp add: exampleUser_def)
  have dy: "localDay utc (utcDate 2024 2 10) + 1 = localDay utc (utcDate 2024 2 11 + 32400000)"
    by code_simp
  have m: "getMonth utc (utcDate 2024 2 10) = getMonth utc (utcDate 2024 2 11 + 32400000)"
    by code_simp
  have y: "getFullYear utc (utcDate 2024 2 10) = getFullYear utc (utcDate 2024 2 11 + 32400000)"
    by code_simp
  have s: "streakDaysOr0 exampleUser = 5" by (simp add: streakDaysOr0_def exampleUser_def)
  have lo: "- (2 ^ 53) \<le> streakDaysOr0 exampleUser" unfolding s by simp
  have hi: "streakDaysOr0 exampleUser < 2 ^ 53" unfolding s by simp
  have nt: "\<not> isToday utc (lastCheckInDate exampleUser) (utcDate 2024 2 11 + 32400000)"
    unfolding isToday_iff using dy l by (simp add: lastCheckInDate_def)
  have ok: "success r"
    using run updateStreak_written[OF u nt refl, of "utcDate 2024 2 11 + 32400001"] by auto
  from updateStreak_next_day_increments[OF u l dy m y lo hi run ok] s run ok
  show ?thesis by simp
qed

text \<open>
  C3. When the date that \<^verbatim>\<open>updateStreak\<close> takes for the last check-in (the stored
  \<^verbatim>\<open>lastCheckIn\<close>, or the instant 0 of the epoch when the profile has none)
  lies two or more local calendar days before \<open>now\<close>, a successful call
  returns and stores a streak of 1. For a profile without \<^verbatim>\<open>lastCheckIn\<close> the
  hypothesis says that \<open>now\<close> is at least two days past the day of the epoch.
\<close>

theorem updateStreak_gap_resets:
  assumes "users w uid = Some d"
    and "localDay tza (lastCheckInDate d) + 2 \<le> localDay tza now"
    and "updateStreak tza rdFault wrFault now tsNow w uid = (r, w')"
    and "success r"
  shows "res_streakDays r = Some 1 \<and>
         users w' = (users w)(uid \<mapsto> d\<lparr>streakDays := Some 1, lastCheckIn := Some tsNow\<rparr>)"
proof -
  have ny: "\<not> isYesterday tza (lastCheckInDate d) now"
    unfolding isYesterday_iff using assms(2) by simp
  have nt: "\<not> isToday tza (lastCheckInDate d) now"
    unfolding isToday_iff using assms(2) by simp
  have s: "1 = (if isYesterday tza (lastCheckInDate d) now then jsAdd (streakDaysOr0 d) 1 else 1)"
    using ny by simp
  from updateStreak_success_written[OF assms(3,4,1) nt s] show ?thesis .
qed

theorem updateStreak_gap_resets_witness:
  "\<exists>r w'. updateStreak utc None None (utcDate 2024 2 10 + 32400000) (utcDate 2024 2 10 + 32400001)
            (exampleWorld (exampleUser\<lparr>lastCheckIn := None\<rparr>)) ''u1'' = (r, w') \<and> success r \<and>
          res_streakDays r = Some 1 \<and>
          users w' ''u1'' = Some (exampleUser\<lparr>streakDays := Some 1,
                                 lastCheckIn := Some (utcDate 2024 2 10 + 32400001)\<rparr>)"
proof -
  let ?d = "exampleUser\<lparr>lastCheckIn := None\<rparr>"
  let ?now = "utcDate 2024 2 10 + 32400000"
  let ?ts = "utcDate 2024 2 10 + 32400001"
  obtain r w' where run: "updateStreak utc None None ?now ?ts (exampleWorld ?d) ''u1'' = (r, w')"
    by (cases "updateStreak utc None None ?now ?ts (exampleWorld ?d) ''u1''") blast
  have u: "users (exampleWorld ?d) ''u1'' = Some ?d"
    by (simp add: exampleWorld_def)
  have l: "lastCheckInDate ?d = 0" by (simp add: lastCheckInDate_def)
  have "localDay utc 0 + 2 \<le> localDay utc ?now" by code_simp
  then have gap: "localDay utc (lastCheckInDate ?d) + 2 \<le> localDay utc ?now"
    unfolding l .
  have nt: "\<not> isToday utc (lastCheckInDate ?d) ?now"
    unfolding isToday_iff using gap by simp
  have ok: "success r"
    using run updateStreak_written[OF u nt refl, of ?ts] by auto
  from updateStreak_gap_resets[OF u gap run ok] run ok
  show ?thesis by simp
qed

text \<open>
  C4. \<^verbatim>\<open>isYesterday\<close> asks for equal months. When \<^verbatim>\<open>lastCheckIn\<close> lies on the
  local calendar day just before the day of \<open>now\<close> but in another month (31
  January and 1 February in the witness), the test is false and a successful
  \<^verbatim>\<open>updateStreak\<close> returns and stores a streak of 1, not the increment.
\<close>

theorem updateStreak_month_boundary_resets:
  assumes "users w uid = Some d" and "lastCheckIn d = Some ts"
    and "localDay tza ts + 1 = localDay tza now"
    and "getMonth tza ts \<noteq> getMonth tza now"
    and "updateStreak tza rdFault wrFault now tsNow w uid = (r, w')"
    and "success r"
  shows "\<not> isYesterday tza ts now \<and> res_streakDays r = Some 1 \<and>
         users w' = (users w)(uid \<mapsto> d\<lparr>streakDays := Some 1, lastCheckIn := Some tsNow\<rparr>)"
proof -
  have l: "lastCheckInDate d = ts" using assms(2) by (simp add: lastCheckInDate_def)
  have ny: "\<not> isYesterday tza ts now"
    using assms(4) by (simp add: isYesterday_def)
  have nt: "\<not> isToday tza (lastCheckInDate d) now"
    unfolding l isToday_iff using assms(3) by simp
  have s: "1 = (if isYesterday tza (lastCheckInDate d) now then jsAdd (streakDaysOr0 d) 1 else 1)"
    using ny l by simp
  from updateStreak_success_written[OF assms(5,6,1) nt s] ny show ?thesis by simp
qed

theorem updateStreak_month_boundary_resets_witness:
  "\<exists>r w'. updateStreak utc None None (utcDate 2024 1 1 + 32400000) (utcDate 2024 1 1 + 32400001)
            (exampleWorld (exampleUser\<lparr>lastCheckIn := Some (utcDate 2024 0 31 + 32400000)\<rparr>)) ''u1''
            = (r, w') \<and> success r \<and>
          getDate utc (utcDate 2024 0 31 + 32400000) = 31 \<and>
          getDate utc (utcDate 2024 1 1 + 32400000) = 1 \<and>
          res_streakDays r = Some 1"
proof -
  let ?last = "utcDate 2024 0 31 + 32400000"
  let ?d = "exampleUser\<lparr>lastCheckIn := Some ?last\<rparr>"
  let ?now = "utcDate 2024 1 1 + 32400000"
  let ?ts = "utcDate 2024 1 1 + 32400001"
  obtain r w' where run: "updateStreak utc None None ?now ?ts (exampleWorld ?d) ''u1'' = (r, w')"
    by (cases "updateStreak utc None None ?now ?ts (exampleWorld ?d) ''u1''") blast
  have u: "users (exampleWorld ?d) ''u1'' = Some ?d"
    by (simp add: exampleWorld_def)
  have l: "lastCheckIn ?d = Some ?last" by simp
  have dy: "localDay utc ?last + 1 = localDay utc ?now" by code_simp
  have m: "getMonth utc ?last \<noteq> getMonth utc ?now" by code_simp
  have d1: "getDate utc ?last = 31" by code_simp
  have d2: "getDate utc ?now = 1" by code_simp
  have nt: "\<not> isToday utc (lastCheckInDate ?d) ?now"
    unfolding isToday_iff using dy by (simp add: lastCheckInDate_def)
  have ok: "success r"
    using run updateStreak_written[OF u nt refl, of ?ts] by auto
  from updateStreak_month_boundary_resets[OF u l dy m run ok] run ok d1 d2
  show ?thesis by simp
qed

text \<open>
  C5. A successful \<^verbatim>\<open>logRelapse\<close> leaves the profile with \<^verbatim>\<open>streakDays\<close> 0 and
  \<^verbatim>\<open>lastCheckIn\<close> at the clock reading of the reset, and the \<^verbatim>\<open>relapses\<close>
  collection with one more record at its end: the user id, the clock reading
  of the record, and the notes given, the empty string when there are none.
\<close>

theorem logRelapse_resets_and_records:
  assumes "logRelapse recFault wrFault tsRecord tsReset w uid notes' = (r, w')" and "success r"
  shows "\<exists>d. users w uid = Some d \<and>
           users w' = (users w)(uid \<mapsto> d\<lparr>streakDays := Some 0, lastCheckIn := Some tsReset\<rparr>) \<and>
           relapses w' = relapses w @
             [\<lparr>userId = uid, timestamp = tsRecord,
               relapse_notes = (case notes' of Some n \<Rightarrow> n | None \<Rightarrow> '''')\<rparr>]"
proof -
  from logRelapse_success[OF assms] obtain d where
    f: "recFault = None" "wrFault = None" and d: "users w uid = Some d" by auto
  show ?thesis
    using assms(1) logRelapse_done[OF d, of tsRecord tsReset notes'] d
    unfolding f by (auto simp: notesOrEmpty_def)
qed

theorem logRelapse_resets_and_records_witness:
  "\<exists>r w'. logRelapse None None (utcDate 2024 2 12) (utcDate 2024 2 12 + 7)
             (exampleWorld exampleUser) ''u1'' None = (r, w') \<and> success r \<and>
           users w' ''u1'' =
             Some (exampleUser\<lparr>streakDays := Some 0, lastCheckIn := Some (utcDate 2024 2 12 + 7)\<rparr>) \<and>
           relapses w' =
             [\<lparr>userId = ''u1'', timestamp = utcDate 2024 2 12, relapse_notes = ''''\<rparr>]"
proof -
  let ?run = "logRelapse None None (utcDate 2024 2 12) (utcDate 2024 2 12 + 7)
                (exampleWorld exampleUser) ''u1'' None"
  obtain r w' where run: "?run = (r, w')" by (cases ?run) blast
  have u: "users (exampleWorld exampleUser) ''u1'' = Some exampleUser"
    by (simp add: exampleWorld_def)
  have ok: "success r" using run logRelapse_done[OF u, of "utcDate 2024 2 12" "utcDate 2024 2 12 + 7" None]
    by auto
  from logRelapse_resets_and_records[OF run ok] u run ok
  show ?thesis by (auto simp: exampleWorld_def)
qed

text \<open>
  C6. A persistence failure of \<^verbatim>\<open>updateStreak\<close>: when the read fails, and when
  the write fails, the result is \<^verbatim>\<open>{success: false, message}\<close> with the message
  of the error; the read is issued once and the write at most once; and
  whenever the call does not succeed, the \<^verbatim>\<open>users\<close> and \<^verbatim>\<open>relapses\<close>
  collections are what they were.
\<close>

theorem updateStreak_persistence_failure:
  "(rdFault = Some e \<longrightarrow>
      updateStreak tza rdFault wrFault now tsNow w uid =
        (failed e, w\<lparr>calls := calls w @ [GetDoc uid]\<rparr>)) \<and>
   (rdFault = None \<and> wrFault = Some e \<and> users w uid = Some d \<and>
    \<not> isToday tza (lastCheckInDate d) now \<longrightarrow>
      (\<exists>f. updateStreak tza rdFault wrFault now tsNow w uid =
             (failed e, w\<lparr>calls := calls w @ [GetDoc uid, UpdateDoc uid f]\<rparr>))) \<and>
   (\<not> success (fst (updateStreak tza rdFault wrFault now tsNow w uid)) \<longrightarrow>
      users (snd (updateStreak tza rdFault wrFault now tsNow w uid)) = users w \<and>
      relapses (snd (updateStreak tza rdFault wrFault now tsNow w uid)) = relapses w)"
proof (intro conjI impI)
  assume "rdFault = Some e"
  then show "updateStreak tza rdFault wrFault now tsNow w uid =
               (failed e, w\<lparr>calls := calls w @ [GetDoc uid]\<rparr>)"
    using updateStreak_read_fault[of tza e wrFault now tsNow w uid] by (simp add: logCall_def)
next
  assume a: "rdFault = None \<and> wrFault = Some e \<and> users w uid = Some d \<and>
             \<not> isToday tza (lastCheckInDate d) now"
  then have d: "users w uid = Some d" and nt: "\<not> isToday tza (lastCheckInDate d) now" by simp_all
  from updateStreak_write_fault[OF d nt refl, of e tsNow] a
  show "\<exists>f. updateStreak tza rdFault wrFault now tsNow w uid =
             (failed e, w\<lparr>calls := calls w @ [GetDoc uid, UpdateDoc uid f]\<rparr>)"
    by (auto simp: logCall_def)
next
  assume ns: "\<not> success (fst (updateStreak tza rdFault wrFault now tsNow w uid))"
  show "users (snd (updateStreak tza rdFault wrFault now tsNow w uid)) = users w"
    using ns
    by (auto simp: updateStreak_def getDoc_def updateDoc_def Let_def
             split: option.splits if_splits)
next
  assume ns: "\<not> success (fst (updateStreak tza rdFault wrFault now tsNow w uid))"
  show "relapses (snd (updateStreak tza rdFault wrFault now tsNow w uid)) = relapses w"
    by (auto simp: updateStreak_def getDoc_def updateDoc_def Let_def
             split: option.splits if_splits)
qed

theorem updateStreak_persistence_failure_witness:
  "updateStreak utc (Some ''unavailable'') None (utcDate 2024 2 11) (utcDate 2024 2 11)
     (exampleWorld exampleUser) ''u1'' =
     (\<lparr>success = False, res_streakDays = None, message = ''unavailable''\<rparr>,
      (exampleWorld exampleUser)\<lparr>calls := [GetDoc ''u1'']\<rparr>) \<and>
   (\<exists>f. updateStreak utc None (Some ''permission-denied'') (utcDate 2024 2 11) (utcDate 2024 2 11)
          (exampleWorld exampleUser) ''u1'' =
          (\<lparr>success = False, res_streakDays = None, message = ''permission-denied''\<rparr>,
           (exampleWorld exampleUser)\<lparr>calls := [GetDoc ''u1'', UpdateDoc ''u1'' f]\<rparr>))"
proof -
  have u: "users (exampleWorld exampleUser) ''u1'' = Some exampleUser"
    by (simp add: exampleWorld_def)
  have "localDay utc (utcDate 2024 2 10) \<noteq> localDay utc (utcDate 2024 2 11)" by code_simp
  then have nt: "\<not> isToday utc (lastCheckInDate exampleUser) (utcDate 2024 2 11)"
    unfolding isToday_iff by (simp add: lastCheckInDate_def exampleUser_def)
  have c: "calls (exampleWorld exampleUser) = []" by (simp add: exampleWorld_def)
  show ?thesis
    using updateStreak_persistence_failure[of "Some ''unavailable''" "''unavailable''" utc None
            "utcDate 2024 2 11" "utcDate 2024 2 11" "exampleWorld exampleUser" "''u1''" exampleUser]
          updateStreak_persistence_failure[of None "''permission-denied''" utc
            "Some ''permission-denied''"
            "utcDate 2024 2 11" "utcDate 2024 2 11" "exampleWorld exampleUser" "''u1''" exampleUser]
          u nt
    by (simp add: failed_def c)
qed

text \<open>
  C7. For a user id without a profile document, \<^verbatim>\<open>updateStreak\<close> (its read
  going through) answers \<^verbatim>\<open>{success: false, message: "User not found"}\<close>, and
  the only call issued is the read.
\<close>

theorem updateStreak_user_not_found:
  assumes "users w uid = None"
  shows "updateStreak tza None wrFault now tsNow w uid =
           (\<lparr>success = False, res_streakDays = None, message = ''User not found''\<rparr>,
            w\<lparr>calls := calls w @ [GetDoc uid]\<rparr>)"
  using updateStreak_not_found[OF assms, of tza wrFault now tsNow]
  by (simp add: failed_def logCall_def)

theorem updateStreak_user_not_found_witness:
  "updateStreak utc None None (utcDate 2024 2 11) (utcDate 2024 2 11) emptyWorld ''u1'' =
     (\<lparr>success = False, res_streakDays = None, message = ''User not found''\<rparr>,
      emptyWorld\<lparr>calls := [GetDoc ''u1'']\<rparr>)"
proof -
  have u: "users emptyWorld ''u1'' = None" by (simp add: emptyWorld_def)
  show ?thesis
    using updateStreak_user_not_found[OF u, of utc None "utcDate 2024 2 11" "utcDate 2024 2 11"]
    by (simp add: emptyWorld_def)
qed

text \<open>
  C8. Every call that \<^verbatim>\<open>updateStreak\<close>, \<^verbatim>\<open>logRelapse\<close> or \<^verbatim>\<open>register\<close> issues
  writes \<^verbatim>\<open>streakDays\<close> exactly when it writes \<^verbatim>\<open>lastCheckIn\<close>, and the
  \<^verbatim>\<open>lastCheckIn\<close> it writes is the reading of \<^verbatim>\<open>Timestamp.now()\<close> taken for
  that call: the two fields go to the store in one call, never apart.
\<close>

theorem streak_fields_written_together:
  "(\<exists>cs. calls (snd (updateStreak tza rdFault wrFault now tsNow w uid)) = calls w @ cs \<and>
         (\<forall>c \<in> set cs. writtenTogether tsNow c)) \<and>
   (\<exists>cs. calls (snd (logRelapse recFault wrFault' tsRecord tsReset w uid notes')) = calls w @ cs \<and>
         (\<forall>c \<in> set cs. writtenTogether tsReset c)) \<and>
   (\<exists>cs. calls (snd (register authResult wrFault'' tsJoined tsCheckIn w
                        email' password username' location')) = calls w @ cs \<and>
         (\<forall>c \<in> set cs. writtenTogether tsCheckIn c))"
proof (intro conjI)
  show "\<exists>cs. calls (snd (updateStreak tza rdFault wrFault now tsNow w uid)) = calls w @ cs \<and>
         (\<forall>c \<in> set cs. writtenTogether tsNow c)"
    by (auto simp: updateStreak_def getDoc_def updateDoc_def Let_def logCall_def
             split: option.splits)
next
  show "\<exists>cs. calls (snd (logRelapse recFault wrFault' tsRecord tsReset w uid notes')) = calls w @ cs \<and>
         (\<forall>c \<in> set cs. writtenTogether tsReset c)"
    by (auto simp: logRelapse_def addRelapse_def updateDoc_def logCall_def
             split: option.splits)
next
  show "\<exists>cs. calls (snd (register authResult wrFault'' tsJoined tsCheckIn w
                        email' password username' location')) = calls w @ cs \<and>
         (\<forall>c \<in> set cs. writtenTogether tsCheckIn c)"
    by (auto simp: register_def setUserDoc_def logCall_def
             split: option.splits sum.splits)
qed

theorem streak_fields_written_together_witness:
  "calls (snd (updateStreak utc None None (utcDate 2024 2 11) (utcDate 2024 2 11 + 5)
                 (exampleWorld exampleUser) ''u1'')) =
     [GetDoc ''u1'',
      UpdateDoc ''u1'' \<lparr>upd_streakDays = Some 6,
                        upd_lastCheckIn = Some (utcDate 2024 2 11 + 5)\<rparr>] \<and>
   writtenTogether (utcDate 2024 2 11 + 5)
     (UpdateDoc ''u1'' \<lparr>upd_streakDays = Some 6,
                       upd_lastCheckIn = Some (utcDate 2024 2 11 + 5)\<rparr>)"
proof -
  let ?now = "utcDate 2024 2 11" and ?ts = "utcDate 2024 2 11 + 5"
  let ?w = "exampleWorld exampleUser"
  have u: "users ?w ''u1'' = Some exampleUser" by (simp add: exampleWorld_def)
  have c: "calls ?w = []" by (simp add: exampleWorld_def)
  have l: "lastCheckInDate exampleUser = utcDate 2024 2 10"
    by (simp add: lastCheckInDate_def exampleUser_def)
  have dy: "localDay utc (utcDate 2024 2 10) + 1 = localDay utc ?now" by code_simp
  have m: "getMonth utc (utcDate 2024 2 10) = getMonth utc ?now" by code_simp
  have y: "getFullYear utc (utcDate 2024 2 10) = getFullYear utc ?now" by code_simp
  have nt: "\<not> isToday utc (lastCheckInDate exampleUser) ?now"
    unfolding l isToday_iff using dy by simp
  have yd: "isYesterday utc (lastCheckInDate exampleUser) ?now"
    unfolding l isYesterday_iff using dy m y by simp
  have s: "6 = (if isYesterday utc (lastCheckInDate exampleUser) ?now
                then jsAdd (streakDaysOr0 exampleUser) 1 else 1)"
    using yd by (simp add: streakDaysOr0_def exampleUser_def jsAdd_def roundToDouble_def)
  have run: "calls (snd (updateStreak utc None None ?now ?ts ?w ''u1'')) =
               [GetDoc ''u1'', UpdateDoc ''u1'' \<lparr>upd_streakDays = Some 6, upd_lastCheckIn = Some ?ts\<rparr>]"
    using updateStreak_written[OF u nt s, of ?ts] by (simp add: c)
  from streak_fields_written_together[of utc None None ?now ?ts ?w "''u1''"]
  have "\<exists>cs. calls (snd (updateStreak utc None None ?now ?ts ?w ''u1'')) = calls ?w @ cs \<and>
             (\<forall>c \<in> set cs. writtenTogether ?ts c)"
    by blast
  then have "writtenTogether ?ts
               (UpdateDoc ''u1'' \<lparr>upd_streakDays = Some 6, upd_lastCheckIn = Some ?ts\<rparr>)"
    unfolding c run by simp
  then show ?thesis using run by simp
qed

text \<open>
  C9, as the claim states it, fails: for a user id without a document
  \<^verbatim>\<open>getUserProfile\<close> does not answer \<^verbatim>\<open>null\<close> or any other sign of absence,
  but the profile \<^verbatim>\<open>{ id: userId }\<close>, which is also its answer for a document
  that exists and has no fields.
\<close>

theorem getUserProfile_missing_counterexample:
  "users emptyWorld ''u1'' = None \<and>
   fst (getUserProfile True None emptyWorld ''u1'') = Some (onlyId ''u1'') \<and>
   fst (getUserProfile True None emptyWorld ''u1'') =
     fst (getUserProfile True None (exampleWorld blankUser) ''u1'')"
  by (simp add: getUserProfile_def getDoc_def emptyWorld_def exampleWorld_def blankUser_def
                onlyId_def withId_def)

text \<open>
  C9, amended. \<^verbatim>\<open>getUserProfile\<close> answers the fields of the stored document
  together with the id when the store handle is initialised, the read goes
  through and the document exists; in every other case (no document, a failed
  read, no store handle) it answers the profile that holds the id alone. It
  never answers \<^verbatim>\<open>null\<close>.
\<close>

theorem getUserProfile_never_null:
  "fst (getUserProfile dbReady rdFault w uid) =
     (if dbReady \<and> rdFault = None
      then (case users w uid of Some d \<Rightarrow> Some (withId uid d) | None \<Rightarrow> Some (onlyId uid))
      else Some (onlyId uid)) \<and>
   fst (getUserProfile dbReady rdFault w uid) \<noteq> None"
  by (simp add: getUserProfile_def getDoc_def split: option.splits)

theorem getUserProfile_never_null_witness:
  "fst (getUserProfile True None (exampleWorld exampleUser) ''u1'') = Some (withId ''u1'' exampleUser) \<and>
   fst (getUserProfile True (Some ''unavailable'') (exampleWorld exampleUser) ''u1'') =
     Some (onlyId ''u1'')"
  using getUserProfile_never_null[of True None "exampleWorld exampleUser" "''u1''"]
        getUserProfile_never_null[of True "Some ''unavailable''" "exampleWorld exampleUser" "''u1''"]
  by (simp add: exampleWorld_def)

text \<open>
  C10. A successful \<^verbatim>\<open>register\<close> stores \<^verbatim>\<open>streakDays\<close> 0 and \<^verbatim>\<open>lastCheckIn\<close> at
  its clock reading. An \<^verbatim>\<open>updateStreak\<close> on the local calendar day of that
  reading answers success with streak 0 and "Already checked in today" and
  issues no write; on any other day it answers, and stores, a streak of 1.
\<close>

theorem register_then_updateStreak:
  assumes reg: "register authResult wrFault tsJoined tsCheckIn w
                  email' password username' location' = (True, w1)"
    and uid: "authResult = Inr uid"
  shows "\<exists>d. users w1 uid = Some d \<and> streakDays d = Some 0 \<and> lastCheckIn d = Some tsCheckIn \<and>
           (localDay tza now = localDay tza tsCheckIn \<longrightarrow>
              updateStreak tza None wrFault2 now tsNow w1 uid =
                (\<lparr>success = True, res_streakDays = Some 0,
                  message = ''Already checked in today''\<rparr>,
                 w1\<lparr>calls := calls w1 @ [GetDoc uid]\<rparr>)) \<and>
           (localDay tza now \<noteq> localDay tza tsCheckIn \<longrightarrow>
              fst (updateStreak tza None None now tsNow w1 uid) =
                \<lparr>success = True, res_streakDays = Some 1,
                 message = ''Streak updated successfully''\<rparr> \<and>
              users (snd (updateStreak tza None None now tsNow w1 uid)) uid =
                Some (d\<lparr>streakDays := Some 1, lastCheckIn := Some tsNow\<rparr>))"
proof -
  let ?d = "\<lparr>username = Some username', email = Some email',
             location = (case location' of Some (lat, lng) \<Rightarrow> Some (GeoPoint lat lng)
                         | None \<Rightarrow> None),
             role = Some Member, joinedAt = Some tsJoined,
             streakDays = Some 0, lastCheckIn = Some tsCheckIn\<rparr>"
  from register_success[OF reg] have f: "wrFault = None" by simp
  have d: "users w1 uid = Some ?d"
    using reg register_done[of uid tsJoined tsCheckIn w email' password username' location']
    unfolding f uid by auto
  have l: "lastCheckInDate ?d = tsCheckIn" by (simp add: lastCheckInDate_def)
  have s0: "streakDaysOr0 ?d = 0" by (simp add: streakDaysOr0_def)
  have today: "localDay tza now = localDay tza tsCheckIn \<Longrightarrow>
     updateStreak tza None wrFault2 now tsNow w1 uid =
       (\<lparr>success = True, res_streakDays = Some 0, message = ''Already checked in today''\<rparr>,
        w1\<lparr>calls := calls w1 @ [GetDoc uid]\<rparr>)"
  proof -
    assume "localDay tza now = localDay tza tsCheckIn"
    then have "isToday tza (lastCheckInDate ?d) now" unfolding l isToday_iff by simp
    from updateStreak_today[OF d this, of wrFault2 tsNow] show ?thesis
      by (simp add: logCall_def)
  qed
  have later: "localDay tza now \<noteq> localDay tza tsCheckIn \<Longrightarrow>
     fst (updateStreak tza None None now tsNow w1 uid) =
       \<lparr>success = True, res_streakDays = Some 1, message = ''Streak updated successfully''\<rparr> \<and>
     users (snd (updateStreak tza None None now tsNow w1 uid)) uid =
       Some (?d\<lparr>streakDays := Some 1, lastCheckIn := Some tsNow\<rparr>)"
  proof -
    assume "localDay tza now \<noteq> localDay tza tsCheckIn"
    then have nt: "\<not> isToday tza (lastCheckInDate ?d) now" unfolding l isToday_iff by simp
    have s: "1 = (if isYesterday tza (lastCheckInDate ?d) now then jsAdd (streakDaysOr0 ?d) 1 else 1)"
      unfolding s0 by (simp add: jsAdd_def roundToDouble_def)
    from updateStreak_written[OF d nt s, of tsNow] show ?thesis by simp
  qed
  show ?thesis
    using d today later by (intro exI[of _ ?d]) simp
qed

theorem register_then_updateStreak_witness:
  "\<exists>w1. register (Inr ''u2'') None (utcDate 2024 2 10 + 1000) (utcDate 2024 2 10 + 1001) emptyWorld
            ''bo@example.org'' ''secret'' ''bo'' None = (True, w1) \<and>
         fst (updateStreak utc None None (utcDate 2024 2 10 + 72000000) (utcDate 2024 2 10 + 72000000)
                w1 ''u2'') =
           \<lparr>success = True, res_streakDays = Some 0, message = ''Already checked in today''\<rparr> \<and>
         fst (updateStreak utc None None (utcDate 2024 2 11) (utcDate 2024 2 11) w1 ''u2'') =
           \<lparr>success = True, res_streakDays = Some 1, message = ''Streak updated successfully''\<rparr>"
proof -
  let ?reg = "register (Inr ''u2'') None (utcDate 2024 2 10 + 1000) (utcDate 2024 2 10 + 1001)
                emptyWorld ''bo@example.org'' ''secret'' ''bo'' None"
  obtain w1 where reg: "?reg = (True, w1)"
    using register_done[of "''u2''" "utcDate 2024 2 10 + 1000" "utcDate 2024 2 10 + 1001"
            emptyWorld "''bo@example.org''" "''secret''" "''bo''" None]
    by blast
  have same: "localDay utc (utcDate 2024 2 10 + 72000000) = localDay utc (utcDate 2024 2 10 + 1001)"
    by code_simp
  have other: "localDay utc (utcDate 2024 2 11) \<noteq> localDay utc (utcDate 2024 2 10 + 1001)"
    by code_simp
  from register_then_updateStreak[OF reg refl, of utc "utcDate 2024 2 10 + 72000000" None
         "utcDate 2024 2 10 + 72000000"] same
  have a: "fst (updateStreak utc None None (utcDate 2024 2 10 + 72000000)
                  (utcDate 2024 2 10 + 72000000) w1 ''u2'') =
           \<lparr>success = True, res_streakDays = Some 0, message = ''Already checked in today''\<rparr>"
    by auto
  from register_then_updateStreak[OF reg refl, of utc "utcDate 2024 2 11" None
         "utcDate 2024 2 11"] other
  have b: "fst (updateStreak utc None None (utcDate 2024 2 11) (utcDate 2024 2 11) w1 ''u2'') =
           \<lparr>success = True, res_streakDays = Some 1, message = ''Streak updated successfully''\<rparr>"
    by auto
  show ?thesis using reg a b by blast
qed

end
